theory Spec2Isabelle
  imports Complex_Main "HOL-Library.Word"
begin

section \<open>JavaScript numbers and their text\<close>

text \<open>
  A JavaScript number is NaN, one of the two infinities, or a finite value. Finite values
  are kept as the rational they denote; the two zeros are one value, which none of the
  operations below tells apart (\<open>===\<close>, truthiness and \<open>String\<close> agree on them).
\<close>

datatype jsnum = NaN | PosInfinity | NegInfinity | Finite rat

text \<open>
  What the JavaScript runtime supplies and the repository does not define:
  the text of a finite number that is not an integer of magnitude at most \<open>2^53\<close>
  (\<open>Number.prototype.toString\<close> picks the shortest decimal that reads back as the same
  double; up to \<open>2^53\<close> every integer is a double of its own, and its text is its
  digits), the conversion \<open>Number(str)\<close> of a text, and \<open>Date.parse\<close> (whose result
  is a time value, or NaN, here \<open>None\<close>).
\<close>

record host =
  Number_toString_other :: "rat \<Rightarrow> string"
  StringToNumber :: "string \<Rightarrow> jsnum"
  Date_parse :: "string \<Rightarrow> int option"

fun digits :: "nat \<Rightarrow> string" where
  "digits n =
     (if n < 10 then [''0123456789'' ! n]
      else digits (n div 10) @ [''0123456789'' ! (n mod 10)])"

declare digits.simps [simp del]

definition show_int :: "int \<Rightarrow> string" where
  "show_int i = (if i < 0 then ''-'' @ digits (nat (- i)) else digits (nat i))"

definition is_integer :: "rat \<Rightarrow> bool" where
  "is_integer q = (of_int \<lfloor>q\<rfloor> = q)"

text \<open>\<open>String(n)\<close>, \<open>n.toString()\<close> and \<open>`${n}`\<close> for a number \<open>n\<close>.\<close>

fun Number_toString :: "host \<Rightarrow> jsnum \<Rightarrow> string" where
  "Number_toString H NaN = ''NaN''"
| "Number_toString H PosInfinity = ''Infinity''"
| "Number_toString H NegInfinity = ''-Infinity''"
| "Number_toString H (Finite q) =
     (if is_integer q \<and> \<bar>q\<bar> \<le> 2 ^ 53 then show_int \<lfloor>q\<rfloor>
      else Number_toString_other H q)"

text \<open>Truthiness of a number: zero and NaN are falsy.\<close>

fun truthy_num :: "jsnum \<Rightarrow> bool" where
  "truthy_num NaN = False"
| "truthy_num (Finite q) = (q \<noteq> 0)"
| "truthy_num _ = True"

text \<open>An optional field of an options bag: \<open>None\<close> is \<open>undefined\<close>.\<close>

fun truthy_opt_num :: "jsnum option \<Rightarrow> bool" where
  "truthy_opt_num None = False"
| "truthy_opt_num (Some n) = truthy_num n"

fun truthy_opt_bool :: "bool option \<Rightarrow> bool" where
  "truthy_opt_bool None = False"
| "truthy_opt_bool (Some b) = b"

section \<open>The numeric family: NUMBER and its subclasses\<close>

text \<open>
  \<open>NumberOptions\<close>, with the two fields \<open>DecimalOptions\<close> adds. Every field is
  optional. The option bags are ordinary mutable objects, so they live in a store and
  an instance holds the address of its bag: \<open>this.options\<close>.
\<close>

record NumberOptions =
  length' :: "jsnum option"
  decimals :: "jsnum option"
  zerofill :: "bool option"
  unsigned' :: "bool option"
  scale :: "jsnum option"
  precision :: "jsnum option"

definition empty_options :: NumberOptions where
  "empty_options =
     \<lparr>length' = None, decimals = None, zerofill = None, unsigned' = None,
      scale = None, precision = None\<rparr>"

type_synonym addr = nat

record store =
  cells :: "addr \<Rightarrow> NumberOptions"
  fresh :: addr

text \<open>An object literal or a spread creates a new object.\<close>

definition alloc :: "store \<Rightarrow> NumberOptions \<Rightarrow> addr \<times> store" where
  "alloc s obj = (fresh s, s\<lparr>cells := (cells s)(fresh s := obj), fresh := Suc (fresh s)\<rparr>)"

datatype numeric_class =
  NUMBER | INTEGER | TINYINT | SMALLINT | MEDIUMINT | BIGINT | FLOAT | REAL | DOUBLE | DECIMAL

fun key :: "numeric_class \<Rightarrow> string" where
  "key NUMBER = ''NUMBER''"
| "key INTEGER = ''INTEGER''"
| "key TINYINT = ''TINYINT''"
| "key SMALLINT = ''SMALLINT''"
| "key MEDIUMINT = ''MEDIUMINT''"
| "key BIGINT = ''BIGINT''"
| "key FLOAT = ''FLOAT''"
| "key REAL = ''REAL''"
| "key DOUBLE = ''DOUBLE''"
| "key DECIMAL = ''DECIMAL''"

record numeric =
  cls :: numeric_class
  options :: addr

text \<open>The first constructor argument: absent, a number, or an options bag.\<close>

datatype options_or_length = Missing | Length jsnum | Options addr

text \<open>
  \<open>NUMBER.constructor\<close>: an object argument is copied (\<open>{ ...optionsOrLength }\<close>),
  anything else becomes \<open>{ length: optionsOrLength }\<close>.
\<close>

definition NUMBER_constructor ::
  "store \<Rightarrow> numeric_class \<Rightarrow> options_or_length \<Rightarrow> numeric \<times> store" where
  "NUMBER_constructor s c optionsOrLength =
     (let opts = (case optionsOrLength of
                    Options a \<Rightarrow> cells s a
                  | Length n \<Rightarrow> empty_options\<lparr>length' := Some n\<rparr>
                  | Missing \<Rightarrow> empty_options);
          (a, s') = alloc s opts
      in (\<lparr>cls = c, options = a\<rparr>, s'))"

text \<open>
  \<open>FLOAT.constructor(length, decimals)\<close>:
  \<open>super(typeof length === 'object' ? length : { length, decimals })\<close>.
\<close>

definition FLOAT_constructor ::
  "store \<Rightarrow> numeric_class \<Rightarrow> options_or_length \<Rightarrow> jsnum option \<Rightarrow> numeric \<times> store" where
  "FLOAT_constructor s c len decs =
     (case len of
        Options a \<Rightarrow> NUMBER_constructor s c (Options a)
      | Length n \<Rightarrow>
          (let (tmp, s1) = alloc s (empty_options\<lparr>length' := Some n, decimals := decs\<rparr>)
           in NUMBER_constructor s1 c (Options tmp))
      | Missing \<Rightarrow>
          (let (tmp, s1) = alloc s (empty_options\<lparr>decimals := decs\<rparr>)
           in NUMBER_constructor s1 c (Options tmp)))"

text \<open>
  \<open>DECIMAL.constructor(precisionOrOptions, scale)\<close>: an object goes to \<open>super\<close>;
  otherwise \<open>super()\<close> runs and the two fields are then assigned in place.
\<close>

definition DECIMAL_constructor ::
  "store \<Rightarrow> numeric_class \<Rightarrow> options_or_length \<Rightarrow> jsnum option \<Rightarrow> numeric \<times> store" where
  "DECIMAL_constructor s c precisionOrOptions scl =
     (case precisionOrOptions of
        Options a \<Rightarrow> NUMBER_constructor s c (Options a)
      | _ \<Rightarrow>
          (let (this, s1) = NUMBER_constructor s c Missing;
               prec = (case precisionOrOptions of Length n \<Rightarrow> Some n | _ \<Rightarrow> None);
               a = options this
           in (this,
               s1\<lparr>cells := (cells s1)(a := (cells s1 a)\<lparr>precision := prec, scale := scl\<rparr>)\<rparr>)))"

text \<open>\<open>new C(a0, a1)\<close> for a class \<open>C\<close> of the family.\<close>

fun construct ::
  "store \<Rightarrow> numeric_class \<Rightarrow> options_or_length \<Rightarrow> jsnum option \<Rightarrow> numeric \<times> store" where
  "construct s FLOAT a0 a1 = FLOAT_constructor s FLOAT a0 a1"
| "construct s REAL a0 a1 = FLOAT_constructor s REAL a0 a1"
| "construct s DOUBLE a0 a1 = FLOAT_constructor s DOUBLE a0 a1"
| "construct s DECIMAL a0 a1 = DECIMAL_constructor s DECIMAL a0 a1"
| "construct s c a0 a1 = NUMBER_constructor s c a0"

text \<open>
  The instance getters: \<open>this._construct({ ...this.options, unsigned: true })\<close>, where
  \<open>_construct\<close> is \<open>new this.constructor(...)\<close>.
\<close>

definition get_UNSIGNED :: "store \<Rightarrow> numeric \<Rightarrow> numeric \<times> store" where
  "get_UNSIGNED s this =
     (let (tmp, s1) = alloc s ((cells s (options this))\<lparr>unsigned' := Some True\<rparr>)
      in construct s1 (cls this) (Options tmp) None)"

definition get_ZEROFILL :: "store \<Rightarrow> numeric \<Rightarrow> numeric \<times> store" where
  "get_ZEROFILL s this =
     (let (tmp, s1) = alloc s ((cells s (options this))\<lparr>zerofill := Some True\<rparr>)
      in construct s1 (cls this) (Options tmp) None)"

text \<open>The static getters: \<open>new this({ unsigned: true })\<close>.\<close>

definition static_UNSIGNED :: "store \<Rightarrow> numeric_class \<Rightarrow> numeric \<times> store" where
  "static_UNSIGNED s c =
     (let (tmp, s1) = alloc s (empty_options\<lparr>unsigned' := Some True\<rparr>)
      in construct s1 c (Options tmp) None)"

definition static_ZEROFILL :: "store \<Rightarrow> numeric_class \<Rightarrow> numeric \<times> store" where
  "static_ZEROFILL s c =
     (let (tmp, s1) = alloc s (empty_options\<lparr>zerofill := Some True\<rparr>)
      in construct s1 c (Options tmp) None)"

text \<open>\<open>NUMBER.toSql\<close>, inherited by every class of the family but DECIMAL.\<close>

definition NUMBER_toSql :: "host \<Rightarrow> store \<Rightarrow> numeric \<Rightarrow> string" where
  "NUMBER_toSql H s this =
     (let opts = cells s (options this);
          result = key (cls this);
          result = (case length' opts of
                      Some n \<Rightarrow>
                        if truthy_num n
                        then result @ ''('' @ Number_toString H n
                             @ (case decimals opts of
                                  Some d \<Rightarrow> '','' @ Number_toString H d
                                | None \<Rightarrow> '''')
                             @ '')''
                        else result
                    | None \<Rightarrow> result);
          result = (if truthy_opt_bool (unsigned' opts) then result @ '' UNSIGNED'' else result);
          result = (if truthy_opt_bool (zerofill opts) then result @ '' ZEROFILL'' else result)
      in result)"

text \<open>
  \<open>DECIMAL.toSql\<close>: the precision and the scale that are not null or undefined, joined
  by a comma.
\<close>

definition DECIMAL_toSql :: "host \<Rightarrow> store \<Rightarrow> numeric \<Rightarrow> string" where
  "DECIMAL_toSql H s this =
     (let opts = cells s (options this)
      in if truthy_opt_num (precision opts) \<or> truthy_opt_num (scale opts)
         then ''DECIMAL(''
              @ (case (precision opts, scale opts) of
                   (Some p, Some q) \<Rightarrow> Number_toString H p @ '','' @ Number_toString H q
                 | (Some p, None) \<Rightarrow> Number_toString H p
                 | (None, Some q) \<Rightarrow> Number_toString H q
                 | (None, None) \<Rightarrow> '''')
              @ '')''
         else ''DECIMAL'')"

definition numeric_toSql :: "host \<Rightarrow> store \<Rightarrow> numeric \<Rightarrow> string" where
  "numeric_toSql H s this =
     (if cls this = DECIMAL then DECIMAL_toSql H s this else NUMBER_toSql H s this)"

section \<open>Values of unknown type, and the objects they refer to\<close>

text \<open>
  \<open>sanitize\<close>, \<open>validate\<close>, \<open>areValuesEqual\<close> and the ENUM constructor inspect
  their arguments at run time, so these are JavaScript values: the primitives, and
  references to objects. The objects are plain objects (their own properties, in order),
  arrays, Node buffers, dates (the time value in milliseconds, \<open>None\<close> for an invalid
  date) and functions. An object of any other class is, to the functions below, what a
  plain object is: not an array, not a buffer, not a date.
\<close>

datatype jsval =
  JUndefined | JNull | JBool bool | JNumber jsnum | JString string | JBigInt int
  | JSymbol nat | JRef addr

datatype jsobj =
  PlainObject "(string \<times> jsval) list"
  | ArrayObject "jsval list"
  | BufferObject "8 word list"
  | DateObject "int option"
  | FunctionObject

record heap =
  objects :: "addr \<Rightarrow> jsobj"
  top :: addr

definition new_object :: "heap \<Rightarrow> jsobj \<Rightarrow> addr \<times> heap" where
  "new_object h obj = (top h, h\<lparr>objects := (objects h)(top h := obj), top := Suc (top h)\<rparr>)"

datatype jstype =
  Tundefined | Tobject | Tboolean | Tnumber | Tstring | Tbigint | Tsymbol | Tfunction

fun typeof :: "heap \<Rightarrow> jsval \<Rightarrow> jstype" where
  "typeof h JUndefined = Tundefined"
| "typeof h JNull = Tobject"
| "typeof h (JBool b) = Tboolean"
| "typeof h (JNumber n) = Tnumber"
| "typeof h (JString s) = Tstring"
| "typeof h (JBigInt i) = Tbigint"
| "typeof h (JSymbol i) = Tsymbol"
| "typeof h (JRef r) = (case objects h r of FunctionObject \<Rightarrow> Tfunction | _ \<Rightarrow> Tobject)"

text \<open>Truthiness: what \<open>Boolean(v)\<close>, \<open>!v\<close> and \<open>v && ...\<close> test.\<close>

fun truthy :: "jsval \<Rightarrow> bool" where
  "truthy JUndefined = False"
| "truthy JNull = False"
| "truthy (JBool b) = b"
| "truthy (JNumber n) = truthy_num n"
| "truthy (JString s) = (s \<noteq> [])"
| "truthy (JBigInt i) = (i \<noteq> 0)"
| "truthy (JSymbol i) = True"
| "truthy (JRef r) = True"

text \<open>
  \<open>a === b\<close>: the same primitive value or the same object; NaN is not equal to itself.
\<close>

definition strict_eq :: "jsval \<Rightarrow> jsval \<Rightarrow> bool" where
  "strict_eq a b = (a = b \<and> a \<noteq> JNumber NaN)"

text \<open>lodash \<open>isObject\<close>: an object or a function, not null.\<close>

fun isObject :: "jsval \<Rightarrow> bool" where
  "isObject (JRef r) = True"
| "isObject _ = False"

fun isArray :: "heap \<Rightarrow> jsval \<Rightarrow> bool" where
  "isArray h (JRef r) = (case objects h r of ArrayObject xs \<Rightarrow> True | _ \<Rightarrow> False)"
| "isArray h _ = False"

datatype error = TypeError | ValidationError

section \<open>BOOLEAN\<close>

text \<open>
  \<open>BOOLEAN.parse\<close>. A buffer of length one is replaced by its byte; then only the texts
  \<open>true\<close> and \<open>false\<close> and the numbers 0 and 1 are acted on. The result type is
  \<open>boolean | null\<close>, \<open>None\<close> being null.
\<close>

definition BOOLEAN_parse :: "heap \<Rightarrow> jsval \<Rightarrow> bool option" where
  "BOOLEAN_parse h value =
     (if value = JUndefined \<or> value = JNull then None
      else
        let value = (case value of
                       JRef r \<Rightarrow>
                         (case objects h r of
                            BufferObject [b] \<Rightarrow> JNumber (Finite (of_nat (unat b)))
                          | _ \<Rightarrow> value)
                     | _ \<Rightarrow> value);
            type = typeof h value
        in if type = Tstring then
             (if value = JString ''true'' then Some True
              else if value = JString ''false'' then Some False
              else None)
           else if type = Tnumber
                   \<and> (strict_eq value (JNumber (Finite 0)) \<or> strict_eq value (JNumber (Finite 1)))
           then Some (truthy value)
           else None)"

definition BOOLEAN_sanitize :: "heap \<Rightarrow> jsval \<Rightarrow> bool option" where
  "BOOLEAN_sanitize h value = BOOLEAN_parse h value"

section \<open>DATE\<close>

text \<open>
  \<open>new Date(value)\<close> for a text or a number: the text goes through \<open>Date.parse\<close>; a
  number is truncated to an integer, and is an invalid date when it is not finite or
  beyond 8.64e15 milliseconds.
\<close>

fun Date_time_value :: "host \<Rightarrow> jsval \<Rightarrow> int option" where
  "Date_time_value H (JString s) = Date_parse H s"
| "Date_time_value H (JNumber (Finite q)) =
     (if \<bar>q\<bar> \<le> 8640000000000000 then Some (if 0 \<le> q then \<lfloor>q\<rfloor> else \<lceil>q\<rceil>) else None)"
| "Date_time_value H _ = None"

text \<open>\<open>v instanceof Date\<close>, with the date's time value.\<close>

fun date_of :: "heap \<Rightarrow> jsval \<Rightarrow> int option option" where
  "date_of h (JRef r) = (case objects h r of DateObject t \<Rightarrow> Some t | _ \<Rightarrow> None)"
| "date_of h _ = None"

fun getTime :: "int option \<Rightarrow> jsnum" where
  "getTime None = NaN"
| "getTime (Some ms) = Finite (of_int ms)"

text \<open>The second parameter of \<open>sanitize\<close>: \<open>options?: { raw?: boolean }\<close>.\<close>

record sanitize_options =
  raw :: "bool option"

definition DATE_sanitize ::
  "host \<Rightarrow> heap \<Rightarrow> jsval \<Rightarrow> sanitize_options option \<Rightarrow> error + (jsval \<times> heap)" where
  "DATE_sanitize H h value opts =
     (if (case opts of None \<Rightarrow> False | Some opt \<Rightarrow> truthy_opt_bool (raw opt)) then Inr (value, h)
      else if date_of h value \<noteq> None then Inr (value, h)
      else if typeof h value = Tstring \<or> typeof h value = Tnumber then
        (let (r, h') = new_object h (DateObject (Date_time_value H value))
         in Inr (JRef r, h'))
      else Inl TypeError)"

definition DATE_areValuesEqual :: "heap \<Rightarrow> jsval \<Rightarrow> jsval \<Rightarrow> bool" where
  "DATE_areValuesEqual h value originalValue =
     (if truthy originalValue \<and> truthy value
         \<and> (strict_eq value originalValue
            \<or> (case (date_of h value, date_of h originalValue) of
                  (Some t, Some t') \<Rightarrow> strict_eq (JNumber (getTime t)) (JNumber (getTime t'))
                | _ \<Rightarrow> False))
      then True
      else if \<not> truthy originalValue \<and> \<not> truthy value \<and> strict_eq originalValue value
      then True
      else False)"

section \<open>ENUM\<close>

text \<open>The instance keeps \<open>options = { values }\<close>; the field is \<open>values'\<close> here.\<close>

record EnumOptions =
  values' :: jsval

text \<open>The loop over the candidate values: the first one that is not a string throws.\<close>

fun check_members :: "heap \<Rightarrow> jsval list \<Rightarrow> error + unit" where
  "check_members h [] = Inr ()"
| "check_members h (v # vs) =
     (if typeof h v \<noteq> Tstring then Inl TypeError else check_members h vs)"

text \<open>
  The constructor from \<open>values.length === 0\<close> on. An array is checked member by member.
  A text has a length and iterates over texts. Reading \<open>length\<close> of undefined or null
  throws; the other primitives, dates, functions and plain objects are not iterable (or
  have length 0), and a buffer is empty or yields numbers: each of these ends in a
  TypeError.
\<close>

definition check_values :: "heap \<Rightarrow> jsval \<Rightarrow> error + EnumOptions" where
  "check_values h vals =
     (case vals of
        JString s \<Rightarrow> (if length s = 0 then Inl TypeError else Inr \<lparr>values' = vals\<rparr>)
      | JRef r \<Rightarrow>
          (case objects h r of
             ArrayObject xs \<Rightarrow>
               (if length xs = 0 then Inl TypeError
                else case check_members h xs of
                       Inl e \<Rightarrow> Inl e
                     | Inr u \<Rightarrow> Inr \<lparr>values' = vals\<rparr>)
           | _ \<Rightarrow> Inl TypeError)
      | _ \<Rightarrow> Inl TypeError)"

text \<open>\<open>obj[name]\<close> on a plain object without the property is undefined.\<close>

definition own_property :: "(string \<times> jsval) list \<Rightarrow> string \<Rightarrow> jsval" where
  "own_property props name = (case map_of props name of None \<Rightarrow> JUndefined | Some v \<Rightarrow> v)"

text \<open>
  \<open>ENUM.constructor(...args)\<close>. The rest parameter is a new array. When the first
  argument is an object it must be the only one, and is the array of values or the
  options bag; a date or a function has no \<open>values\<close>, and a buffer's \<open>values\<close> is a
  method of length 0, so these throw as well.
\<close>

definition ENUM_constructor :: "heap \<Rightarrow> jsval list \<Rightarrow> error + (EnumOptions \<times> heap)" where
  "ENUM_constructor h args =
     (let (a, h1) = new_object h (ArrayObject args);
          first = (case args of [] \<Rightarrow> JUndefined | x # xs \<Rightarrow> x);
          checked =
            (if isObject first then
               (if length args > 1 then Inl TypeError
                else if isArray h1 first then check_values h1 first
                else case first of
                       JRef r \<Rightarrow>
                         (case objects h1 r of
                            PlainObject props \<Rightarrow> check_values h1 (own_property props ''values'')
                          | _ \<Rightarrow> Inl TypeError)
                     | _ \<Rightarrow> Inl TypeError)
             else check_values h1 (JRef a))
      in case checked of Inl e \<Rightarrow> Inl e | Inr opts \<Rightarrow> Inr (opts, h1))"

text \<open>The elements of a value that is an array, to read \<open>options.values\<close> back.\<close>

fun elements :: "heap \<Rightarrow> jsval \<Rightarrow> jsval list option" where
  "elements h (JRef r) = (case objects h r of ArrayObject xs \<Rightarrow> Some xs | _ \<Rightarrow> None)"
| "elements h _ = None"

section \<open>STRING and CHAR\<close>

text \<open>
  Modelled from the spec: \<open>joinSQLFragments\<close> (utils/join-sql-fragments) is not among
  the sources. The spec gives only its results, column types such as
  \<open>DECIMAL(10,2)\<close> whose parts are separated by single spaces. The model drops the falsy
  fragments (\<open>None\<close> is \<open>false\<close>), trims the others, drops those left empty, and joins
  the rest with one space, leaving the space out after an opening parenthesis and before a
  semicolon, a comma or a closing parenthesis.
\<close>

definition is_space :: "char \<Rightarrow> bool" where
  "is_space c = (c \<in> set [CHR '' '', CHR 0x09, CHR 0x0A, CHR 0x0B, CHR 0x0C, CHR 0x0D])"

definition trim :: "string \<Rightarrow> string" where
  "trim str = rev (dropWhile is_space (rev (dropWhile is_space str)))"

fun singleSpaceJoin :: "bool \<Rightarrow> string list \<Rightarrow> string" where
  "singleSpaceJoin skipNextLeadingSpace [] = []"
| "singleSpaceJoin skipNextLeadingSpace (part # parts) =
     (if skipNextLeadingSpace \<or> take 1 part \<in> set ['';'', '','', '')''] then part
      else '' '' @ part)
     @ singleSpaceJoin (part \<noteq> [] \<and> last part = CHR ''('') parts"

definition joinSQLFragments :: "string option list \<Rightarrow> string" where
  "joinSQLFragments array =
     singleSpaceJoin True (filter (\<lambda>x. x \<noteq> []) (map trim (List.map_filter id array)))"

text \<open>
  \<open>StringTypeOptions\<close>. The constructor freezes the bag it builds, so an instance carries
  it as a value. The field \<open>length\<close> is \<open>size'\<close> here.
\<close>

record StringTypeOptions =
  size' :: "jsnum option"
  binary :: "bool option"

datatype string_class = STRING | CHAR'

record string_type =
  string_cls :: string_class
  string_options :: StringTypeOptions

datatype length_or_options = NoArgument | LengthArgument jsnum | OptionsArgument StringTypeOptions

text \<open>The operator \<open>x ?? d\<close> on an optional field.\<close>

fun nullish :: "'a option \<Rightarrow> 'a \<Rightarrow> 'a option" where
  "nullish None d = Some d"
| "nullish (Some x) d = Some x"

definition STRING_constructor ::
  "string_class \<Rightarrow> length_or_options \<Rightarrow> bool option \<Rightarrow> string_type" where
  "STRING_constructor c lengthOrOptions bin =
     \<lparr>string_cls = c,
      string_options =
        (case lengthOrOptions of
           OptionsArgument opts \<Rightarrow>
             \<lparr>size' = nullish (size' opts) (Finite 255), binary = nullish (binary opts) False\<rparr>
         | LengthArgument n \<Rightarrow>
             \<lparr>size' = Some n, binary = nullish bin False\<rparr>
         | NoArgument \<Rightarrow>
             \<lparr>size' = Some (Finite 255), binary = nullish bin False\<rparr>)\<rparr>"

text \<open>The text \<open>`${this.options.length}`\<close>.\<close>

fun template_num :: "host \<Rightarrow> jsnum option \<Rightarrow> string" where
  "template_num H None = ''undefined''"
| "template_num H (Some n) = Number_toString H n"

definition STRING_toSql :: "host \<Rightarrow> string_type \<Rightarrow> string" where
  "STRING_toSql H this =
     joinSQLFragments
       [Some (''VAR_CHAR('' @ template_num H (size' (string_options this)) @ '')''),
        (if truthy_opt_bool (binary (string_options this)) then Some ''BINARY'' else None)]"

definition CHAR_toSql :: "host \<Rightarrow> string_type \<Rightarrow> string" where
  "CHAR_toSql H this =
     joinSQLFragments
       [Some (''CHAR('' @ template_num H (size' (string_options this)) @ '')''),
        (if truthy_opt_bool (binary (string_options this)) then Some ''BINARY'' else None)]"

section \<open>FLOAT, REAL and DOUBLE\<close>

text \<open>
  Modelled from the spec: \<open>Validator.isFloat\<close> (utils/validator-extras, which hands on
  the validator library) is not among the sources. The spec calls it the float
  numeric-text predicate and says that the tokens NaN, Infinity and -Infinity are not
  standard numeric literals. The model is the library's pattern: an optional sign, digits,
  an optional point with digits, an optional exponent, and not the empty text or a lone
  sign, point or comma.
\<close>

definition is_digit :: "char \<Rightarrow> bool" where
  "is_digit c = (c \<in> set ''0123456789'')"

fun opt_sign :: "string \<Rightarrow> string" where
  "opt_sign [] = []"
| "opt_sign (c # cs) = (if c = CHR ''-'' \<or> c = CHR ''+'' then cs else c # cs)"

fun opt_fraction :: "string \<Rightarrow> string" where
  "opt_fraction [] = []"
| "opt_fraction (c # cs) = (if c = CHR ''.'' then dropWhile is_digit cs else c # cs)"

fun opt_exponent :: "string \<Rightarrow> bool" where
  "opt_exponent [] = True"
| "opt_exponent (c # cs) =
     ((c = CHR ''e'' \<or> c = CHR ''E'') \<and> opt_sign cs \<noteq> [] \<and> list_all is_digit (opt_sign cs))"

definition isFloat :: "string \<Rightarrow> bool" where
  "isFloat str =
     (str \<noteq> [] \<and> str \<noteq> ''.'' \<and> str \<noteq> '','' \<and> str \<noteq> ''-'' \<and> str \<noteq> ''+''
      \<and> opt_exponent (opt_fraction (dropWhile is_digit (opt_sign str))))"

text \<open>\<open>AcceptedNumber = number | boolean | string | null\<close>, and \<open>String(value)\<close> on it.\<close>

datatype AcceptedNumber = ANumber jsnum | ABoolean bool | AString string | ANull

fun String_of :: "host \<Rightarrow> AcceptedNumber \<Rightarrow> string" where
  "String_of H (ANumber n) = Number_toString H n"
| "String_of H (ABoolean b) = (if b then ''true'' else ''false'')"
| "String_of H (AString s) = s"
| "String_of H ANull = ''null''"

definition FLOAT_validate :: "host \<Rightarrow> AcceptedNumber \<Rightarrow> error + unit" where
  "FLOAT_validate H value =
     (if \<not> isFloat (String_of H value) then Inl ValidationError else Inr ())"

text \<open>\<open>FLOAT._value\<close>.\<close>

definition FLOAT_value :: "host \<Rightarrow> AcceptedNumber \<Rightarrow> string" where
  "FLOAT_value H value =
     (let num = (case value of ANumber n \<Rightarrow> n | _ \<Rightarrow> StringToNumber H (String_of H value))
      in case num of
           NaN \<Rightarrow> ''NaN''
         | PosInfinity \<Rightarrow> ''Infinity''
         | NegInfinity \<Rightarrow> ''-'' @ ''Infinity''
         | Finite q \<Rightarrow> Number_toString H num)"

text \<open>\<open>FLOAT.stringify\<close>: \<open>this.validate(value)\<close>, then \<open>_value\<close> between quotes.\<close>

definition FLOAT_stringify :: "host \<Rightarrow> AcceptedNumber \<Rightarrow> error + string" where
  "FLOAT_stringify H value =
     (case FLOAT_validate H value of
        Inl e \<Rightarrow> Inl e
      | Inr u \<Rightarrow> Inr ([CHR 0x27] @ FLOAT_value H value @ [CHR 0x27]))"

text \<open>\<open>FLOAT.bindParam\<close> hands \<open>_value\<close> to the caller's \<open>bindParam\<close>, with no validation.\<close>

definition FLOAT_bindParam :: "host \<Rightarrow> AcceptedNumber \<Rightarrow> (string \<Rightarrow> string) \<Rightarrow> string" where
  "FLOAT_bindParam H value bindParam = bindParam (FLOAT_value H value)"

section \<open>ARRAY\<close>

text \<open>
  The descriptors an array can wrap here: the numeric family, STRING and CHAR, BOOLEAN,
  and arrays of these. A \<open>DataType\<close> is an instance or a class to construct without
  arguments; the constructor takes a \<open>DataType\<close> or an options bag \<open>{ type }\<close>.
\<close>

datatype data_type =
  NumericType numeric | StringType string_type | BooleanType | ArrayType data_type

datatype class_ref = NumericClass numeric_class | StringClass string_class | BooleanClass

datatype type_ref = Instance data_type | Class class_ref

datatype array_argument = Type type_ref | ArrayOptions type_ref

text \<open>\<open>new rawType()\<close>.\<close>

fun instantiate :: "store \<Rightarrow> class_ref \<Rightarrow> data_type \<times> store" where
  "instantiate s (NumericClass c) = (let (t, s') = construct s c Missing None in (NumericType t, s'))"
| "instantiate s (StringClass c) = (StringType (STRING_constructor c NoArgument None), s)"
| "instantiate s BooleanClass = (BooleanType, s)"

definition ARRAY_constructor :: "store \<Rightarrow> array_argument \<Rightarrow> data_type \<times> store" where
  "ARRAY_constructor s typeOrOptions =
     (let rawType = (case typeOrOptions of Type t \<Rightarrow> t | ArrayOptions t \<Rightarrow> t);
          (t, s') = (case rawType of Class c \<Rightarrow> instantiate s c | Instance t \<Rightarrow> (t, s))
      in (ArrayType t, s'))"

text \<open>\<open>toSql\<close> of a descriptor, by its class; an array appends \<open>[]\<close> to its inner type.\<close>

fun toSql :: "host \<Rightarrow> store \<Rightarrow> data_type \<Rightarrow> string" where
  "toSql H s (NumericType t) = numeric_toSql H s t"
| "toSql H s (StringType t) =
     (case string_cls t of STRING \<Rightarrow> STRING_toSql H t | CHAR' \<Rightarrow> CHAR_toSql H t)"
| "toSql H s BooleanType = ''TINYINT(1)''"
| "toSql H s (ArrayType t) = toSql H s t @ ''[]''"

text \<open>\<open>ARRAY.validate\<close>: only \<open>Array.isArray\<close>; the items are not looked at.\<close>

definition ARRAY_validate :: "heap \<Rightarrow> jsval \<Rightarrow> error + bool" where
  "ARRAY_validate h value = (if \<not> isArray h value then Inl ValidationError else Inr True)"

section \<open>Properties\<close>

subsection \<open>FLOAT.stringify on NaN and the infinities\<close>

lemma isFloat_special_tokens:
  "\<not> isFloat ''NaN''" "\<not> isFloat ''Infinity''" "\<not> isFloat ''-Infinity''"
  by (simp_all add: isFloat_def is_digit_def)

lemma isFloat_examples:
  "isFloat ''3.14''" "isFloat ''-1e+21''" "isFloat ''.5''" "\<not> isFloat ''1e''"
  "\<not> isFloat ''1.2.3''" "\<not> isFloat ''abc''"
  by (simp_all add: isFloat_def is_digit_def)

lemma FLOAT_stringify_3:
  "FLOAT_stringify H (ANumber (Finite 3)) = Inr [CHR 0x27, CHR ''3'', CHR 0x27]"
  by (simp add: FLOAT_stringify_def FLOAT_validate_def FLOAT_value_def isFloat_def
      is_digit_def is_integer_def show_int_def digits.simps)

lemma FLOAT_value_special:
  "FLOAT_value H (ANumber NaN) = ''NaN''"
  "FLOAT_value H (ANumber PosInfinity) = ''Infinity''"
  "FLOAT_value H (ANumber NegInfinity) = ''-Infinity''"
  by (simp_all add: FLOAT_value_def)

text \<open>
  C1. The claim: for FLOAT (and REAL and DOUBLE, which inherit the method), \<open>stringify\<close>
  of NaN is the text \<open>'NaN'\<close>, of Infinity \<open>'Infinity'\<close> and of -Infinity
  \<open>'-Infinity'\<close>, rather than a failure. The code does not do this: \<open>stringify\<close> calls
  \<open>validate\<close> first, \<open>String(NaN)\<close> is \<open>NaN\<close>, the float predicate rejects that
  text, and the call ends in a ValidationError. The tokens are what \<open>_value\<close> computes,
  and what \<open>bindParam\<close>, which does not validate, hands on.
\<close>

theorem FLOAT_stringify_special_values_throw:
  "FLOAT_stringify H (ANumber NaN) = Inl ValidationError
   \<and> FLOAT_stringify H (ANumber PosInfinity) = Inl ValidationError
   \<and> FLOAT_stringify H (ANumber NegInfinity) = Inl ValidationError
   \<and> FLOAT_bindParam H (ANumber NaN) bindParam = bindParam ''NaN''
   \<and> FLOAT_bindParam H (ANumber PosInfinity) bindParam = bindParam ''Infinity''
   \<and> FLOAT_bindParam H (ANumber NegInfinity) bindParam = bindParam ''-Infinity''"
  by (simp add: FLOAT_stringify_def FLOAT_validate_def FLOAT_bindParam_def
      isFloat_special_tokens FLOAT_value_special)

subsection \<open>Deriving UNSIGNED and ZEROFILL\<close>

text \<open>
  C2. From a new INTEGER instance \<open>a\<close>, \<open>a.UNSIGNED.ZEROFILL\<close> is a descriptor whose
  \<open>toSql()\<close> is \<open>INTEGER UNSIGNED ZEROFILL\<close>. After both derivations \<open>a.toSql()\<close> is
  still \<open>INTEGER\<close>, and the options bag of \<open>a\<close> holds what it held before them.
\<close>

theorem UNSIGNED_ZEROFILL_leave_original:
  "(let (a, s1) = construct s INTEGER Missing None;
        (b, s2) = get_UNSIGNED s1 a;
        (c, s3) = get_ZEROFILL s2 b
    in toSql H s3 (NumericType c) = ''INTEGER UNSIGNED ZEROFILL''
       \<and> toSql H s1 (NumericType a) = ''INTEGER''
       \<and> toSql H s3 (NumericType a) = ''INTEGER''
       \<and> cells s3 (options a) = cells s1 (options a))"
  by (simp add: Let_def split_def numeric_toSql_def NUMBER_toSql_def get_UNSIGNED_def
      get_ZEROFILL_def NUMBER_constructor_def alloc_def empty_options_def)

text \<open>
  C3. For every class \<open>c\<close> of the numeric family: \<open>new c().UNSIGNED\<close> and the static
  \<open>c.UNSIGNED\<close> have options bags with the same value in every field, and so have
  \<open>new c().ZEROFILL\<close> and \<open>c.ZEROFILL\<close>. The stores the two paths start from are
  arbitrary.
\<close>

theorem instance_and_static_modifiers_agree:
  "(let (a, s1) = construct s c Missing None;
        (i, s2) = get_UNSIGNED s1 a;
        (t, s3) = static_UNSIGNED s' c;
        (j, s4) = get_ZEROFILL s1 a;
        (u, s5) = static_ZEROFILL s' c
    in cells s2 (options i) = cells s3 (options t)
       \<and> cells s4 (options j) = cells s5 (options u))"
  by (cases c)
     (simp_all add: Let_def split_def get_UNSIGNED_def get_ZEROFILL_def static_UNSIGNED_def
        static_ZEROFILL_def NUMBER_constructor_def FLOAT_constructor_def
        DECIMAL_constructor_def alloc_def empty_options_def)

subsection \<open>ARRAY of DECIMAL\<close>

text \<open>
  C8. An ARRAY wrapping DECIMAL without precision or scale, given as the class or as an
  instance, has \<open>toSql()\<close> equal to \<open>DECIMAL[]\<close>; \<open>validate([1, 2])\<close> succeeds; and
  \<open>validate("x")\<close> throws a ValidationError.
\<close>

theorem ARRAY_of_DECIMAL:
  "(let (arr, s1) = ARRAY_constructor s (Type (Class (NumericClass DECIMAL)))
    in toSql H s1 arr = ''DECIMAL[]'')
   \<and> (let (d, s1) = construct s DECIMAL Missing None;
           (arr, s2) = ARRAY_constructor s1 (Type (Instance (NumericType d)))
       in toSql H s2 arr = ''DECIMAL[]'')
   \<and> (let (r, h') = new_object h (ArrayObject [JNumber (Finite 1), JNumber (Finite 2)])
       in ARRAY_validate h' (JRef r) = Inr True)
   \<and> ARRAY_validate h (JString ''x'') = Inl ValidationError"
  by (simp add: Let_def split_def ARRAY_constructor_def ARRAY_validate_def new_object_def
      numeric_toSql_def DECIMAL_toSql_def DECIMAL_constructor_def NUMBER_constructor_def
      alloc_def empty_options_def)

subsection \<open>STRING.toSql\<close>

lemma Number_toString_255: "Number_toString H (Finite 255) = ''255''"
  by (simp add: is_integer_def show_int_def digits.simps)

text \<open>
  C9. The claim: a STRING with the default options (length 255, not binary) has
  \<open>toSql()\<close> equal to \<open>VARCHAR(255)\<close>, with \<open>BINARY\<close> appended when the binary
  option is set. The code writes the type name as \<open>VAR_CHAR\<close>: the default gives
  \<open>VAR_CHAR(255)\<close>, and with the binary option \<open>VAR_CHAR(255) BINARY\<close>.
\<close>

theorem STRING_toSql_default:
  "STRING_toSql H (STRING_constructor STRING NoArgument None) = ''VAR_CHAR(255)''
   \<and> STRING_toSql H (STRING_constructor STRING NoArgument None) \<noteq> ''VARCHAR(255)''
   \<and> STRING_toSql H (STRING_constructor STRING NoArgument (Some True)) = ''VAR_CHAR(255) BINARY''
   \<and> STRING_toSql H (STRING_constructor STRING
        (OptionsArgument \<lparr>size' = None, binary = Some True\<rparr>) None) = ''VAR_CHAR(255) BINARY''"
  by (simp add: STRING_toSql_def STRING_constructor_def joinSQLFragments_def trim_def
      is_space_def List.map_filter_def Number_toString_255 del: Number_toString.simps)

subsection \<open>ENUM construction\<close>

lemma typeof_string_iff: "typeof h v = Tstring \<longleftrightarrow> v \<in> range JString"
  by (cases v) (auto split: jsobj.splits)

lemma check_members_strings: "check_members h (map JString ms) = Inr ()"
  by (induction ms) simp_all

lemma check_members_fail:
  "\<exists>v \<in> set vs. v \<notin> range JString \<Longrightarrow> check_members h vs = Inl TypeError"
  by (induction vs) (auto simp: typeof_string_iff)

text \<open>
  C4. For a non-empty list of texts \<open>ms\<close> (the claim's is \<open>a\<close>, \<open>b\<close>), the variadic
  call \<open>ENUM(...ms)\<close>, the array call \<open>ENUM(ms)\<close> and the options call
  \<open>ENUM({ values: ms })\<close> all succeed, and \<open>options.values\<close> is an array whose
  elements are exactly \<open>ms\<close>. In the array and options calls it is the caller's array.
\<close>

theorem ENUM_conventions_agree:
  assumes "ms \<noteq> []"
  shows "(case ENUM_constructor h (map JString ms) of
            Inr (opts, h') \<Rightarrow> elements h' (values' opts) = Some (map JString ms)
          | Inl e \<Rightarrow> False)
       \<and> (let (r, h1) = new_object h (ArrayObject (map JString ms))
          in case ENUM_constructor h1 [JRef r] of
               Inr (opts, h') \<Rightarrow>
                 values' opts = JRef r \<and> elements h' (values' opts) = Some (map JString ms)
             | Inl e \<Rightarrow> False)
       \<and> (let (r, h1) = new_object h (ArrayObject (map JString ms));
              (b, h2) = new_object h1 (PlainObject [(''values'', JRef r)])
          in case ENUM_constructor h2 [JRef b] of
               Inr (opts, h') \<Rightarrow>
                 values' opts = JRef r \<and> elements h' (values' opts) = Some (map JString ms)
             | Inl e \<Rightarrow> False)"
proof -
  obtain m ms' where ms: "ms = m # ms'"
    using assms by (cases ms) auto
  show ?thesis
    by (simp add: ms ENUM_constructor_def check_values_def new_object_def own_property_def
        check_members_strings [of _ ms'] Let_def split_def)
qed

theorem ENUM_conventions_agree_witness:
  "[''a'', ''b''] \<noteq> ([] :: string list)
   \<and> (case ENUM_constructor \<lparr>objects = (\<lambda>a. FunctionObject), top = 0\<rparr>
             [JString ''a'', JString ''b''] of
         Inr (opts, h') \<Rightarrow> elements h' (values' opts) = Some [JString ''a'', JString ''b'']
       | Inl e \<Rightarrow> False)
   \<and> (let (r, h1) = new_object \<lparr>objects = (\<lambda>a. FunctionObject), top = 0\<rparr>
                       (ArrayObject [JString ''a'', JString ''b''])
       in case ENUM_constructor h1 [JRef r] of
            Inr (opts, h') \<Rightarrow>
              values' opts = JRef r
              \<and> elements h' (values' opts) = Some [JString ''a'', JString ''b'']
          | Inl e \<Rightarrow> False)
   \<and> (let (r, h1) = new_object \<lparr>objects = (\<lambda>a. FunctionObject), top = 0\<rparr>
                       (ArrayObject [JString ''a'', JString ''b'']);
           (b, h2) = new_object h1 (PlainObject [(''values'', JRef r)])
       in case ENUM_constructor h2 [JRef b] of
            Inr (opts, h') \<Rightarrow>
              values' opts = JRef r
              \<and> elements h' (values' opts) = Some [JString ''a'', JString ''b'']
          | Inl e \<Rightarrow> False)"
  using ENUM_conventions_agree
    [of "[''a'', ''b'']" "\<lparr>objects = (\<lambda>a. FunctionObject), top = 0\<rparr>", unfolded list.map]
  by simp

text \<open>
  C5. Let \<open>vs\<close> be a list of values that is empty or has a member that is not a text.
  Then the constructor throws, in each calling convention: given \<open>vs\<close> as its
  arguments, given an array of \<open>vs\<close>, and given an options bag whose \<open>values\<close> is an
  array of \<open>vs\<close>. No instance comes to exist, so the failure is the constructor's own.
  A single object argument is never a variadic call (the constructor reads it as the array
  or the bag), which is the side condition of the first part.
\<close>

theorem ENUM_rejects_empty_and_non_strings:
  assumes "vs = [] \<or> (\<exists>v \<in> set vs. v \<notin> range JString)"
  shows "((\<forall>r. vs \<noteq> [JRef r]) \<longrightarrow> ENUM_constructor h vs = Inl TypeError)
       \<and> (let (r, h1) = new_object h (ArrayObject vs)
          in ENUM_constructor h1 [JRef r] = Inl TypeError)
       \<and> (let (r, h1) = new_object h (ArrayObject vs);
              (b, h2) = new_object h1 (PlainObject [(''values'', JRef r)])
          in ENUM_constructor h2 [JRef b] = Inl TypeError)"
proof (cases "vs = []")
  case True
  then show ?thesis
    by (simp add: ENUM_constructor_def check_values_def new_object_def own_property_def Let_def)
next
  case False
  with assms have bad: "\<And>h. check_members h vs = Inl TypeError"
    using check_members_fail by blast
  obtain v vs' where vs: "vs = v # vs'"
    using False by (cases vs) auto
  have variadic: "(\<forall>r. vs \<noteq> [JRef r]) \<longrightarrow> ENUM_constructor h vs = Inl TypeError"
    using bad [unfolded vs]
    by (cases v; cases vs')
       (simp_all add: vs ENUM_constructor_def check_values_def new_object_def Let_def
          del: check_members.simps)
  have array: "(let (r, h1) = new_object h (ArrayObject vs)
                in ENUM_constructor h1 [JRef r] = Inl TypeError)"
    using bad [unfolded vs]
    by (simp add: vs ENUM_constructor_def check_values_def new_object_def Let_def
          del: check_members.simps)
  have bag: "(let (r, h1) = new_object h (ArrayObject vs);
                  (b, h2) = new_object h1 (PlainObject [(''values'', JRef r)])
              in ENUM_constructor h2 [JRef b] = Inl TypeError)"
    using bad [unfolded vs]
    by (simp add: vs ENUM_constructor_def check_values_def new_object_def Let_def
          own_property_def del: check_members.simps)
  from variadic array bag show ?thesis by blast
qed

theorem ENUM_rejects_empty_and_non_strings_witness:
  "(\<exists>v \<in> set [JString ''a'', JNumber (Finite 1)]. v \<notin> range JString)
   \<and> ENUM_constructor \<lparr>objects = (\<lambda>a. FunctionObject), top = 0\<rparr>
         [JString ''a'', JNumber (Finite 1)] = Inl TypeError
   \<and> (let (r, h1) = new_object \<lparr>objects = (\<lambda>a. FunctionObject), top = 0\<rparr>
                       (ArrayObject [JString ''a'', JNumber (Finite 1)])
       in ENUM_constructor h1 [JRef r] = Inl TypeError)
   \<and> (let (r, h1) = new_object \<lparr>objects = (\<lambda>a. FunctionObject), top = 0\<rparr>
                       (ArrayObject [JString ''a'', JNumber (Finite 1)]);
           (b, h2) = new_object h1 (PlainObject [(''values'', JRef r)])
       in ENUM_constructor h2 [JRef b] = Inl TypeError)
   \<and> ENUM_constructor \<lparr>objects = (\<lambda>a. FunctionObject), top = 0\<rparr> [] = Inl TypeError
   \<and> (let (r, h1) = new_object \<lparr>objects = (\<lambda>a. FunctionObject), top = 0\<rparr> (ArrayObject [])
       in ENUM_constructor h1 [JRef r] = Inl TypeError)"
proof -
  have mixed: "[JString ''a'', JNumber (Finite 1)] = []
      \<or> (\<exists>v \<in> set [JString ''a'', JNumber (Finite 1)]. v \<notin> range JString)"
    by auto
  have none: "([] :: jsval list) = [] \<or> (\<exists>v \<in> set []. v \<notin> range JString)"
    by simp
  show ?thesis
    using mixed
      ENUM_rejects_empty_and_non_strings
        [OF mixed, of "\<lparr>objects = (\<lambda>a. FunctionObject), top = 0\<rparr>"]
      ENUM_rejects_empty_and_non_strings
        [OF none, of "\<lparr>objects = (\<lambda>a. FunctionObject), top = 0\<rparr>"]
    by (simp add: Let_def split_def)
qed

subsection \<open>DATE.areValuesEqual\<close>

text \<open>
  C6. \<open>areValuesEqual\<close> is true for two date objects with the same valid time value,
  whether or not they are the same object; true for null and null, and for any falsy value
  taken twice, NaN aside (NaN is not \<open>===\<close> to itself, and is no empty value); false
  when one side is falsy and the other is a date.
\<close>

theorem DATE_areValuesEqual_cases:
  "(objects h a = DateObject (Some t) \<and> objects h b = DateObject (Some t)
      \<longrightarrow> DATE_areValuesEqual h (JRef a) (JRef b))
   \<and> DATE_areValuesEqual h JNull JNull
   \<and> (\<not> truthy v \<and> v \<noteq> JNumber NaN \<longrightarrow> DATE_areValuesEqual h v v)
   \<and> (\<not> truthy v \<and> objects h a = DateObject d
      \<longrightarrow> \<not> DATE_areValuesEqual h v (JRef a) \<and> \<not> DATE_areValuesEqual h (JRef a) v)"
  by (auto simp add: DATE_areValuesEqual_def strict_eq_def)

theorem DATE_areValuesEqual_cases_witness:
  "(let h = \<lparr>objects = (\<lambda>a. DateObject (Some 1000)), top = 2\<rparr>
    in objects h 0 = DateObject (Some 1000) \<and> objects h 1 = DateObject (Some 1000)
       \<and> JRef 0 \<noteq> JRef 1
       \<and> DATE_areValuesEqual h (JRef 0) (JRef 1)
       \<and> \<not> truthy JUndefined \<and> JUndefined \<noteq> JNumber NaN
       \<and> DATE_areValuesEqual h JUndefined JUndefined
       \<and> \<not> DATE_areValuesEqual h JUndefined (JRef 0)
       \<and> \<not> DATE_areValuesEqual h (JRef 0) JUndefined)"
  using DATE_areValuesEqual_cases
    [of "\<lparr>objects = (\<lambda>a. DateObject (Some 1000)), top = 2\<rparr>" 0 1000 1 JUndefined "Some 1000"]
  by (simp add: Let_def)

subsection \<open>BOOLEAN.sanitize\<close>

lemma byte_simps:
  "(unsigned (b :: 8 word) = (0::rat)) = (b = 0)"
  "(unsigned (b :: 8 word) = (1::rat)) = (b = 1)"
  using unsigned_eq_0_iff [of b, where ?'a = rat]
    word_eq_iff_unsigned [of b 1, where ?'a = rat]
  by simp_all

text \<open>
  C7. \<open>sanitize\<close> maps a one-byte buffer holding 1 to true, the text \<open>false\<close> to
  false, the number 2 to null and null to null. Every value other than the recognised
  ones (the texts \<open>true\<close> and \<open>false\<close>, the numbers 0 and 1, a one-byte buffer
  holding 0 or 1) gives null. The function has no failing path: its result is always
  true, false or null.
\<close>

theorem BOOLEAN_sanitize_cases:
  "(objects h r = BufferObject [1] \<longrightarrow> BOOLEAN_sanitize h (JRef r) = Some True)
   \<and> BOOLEAN_sanitize h (JString ''false'') = Some False
   \<and> BOOLEAN_sanitize h (JNumber (Finite 2)) = None
   \<and> BOOLEAN_sanitize h JNull = None
   \<and> (v \<noteq> JString ''true'' \<and> v \<noteq> JString ''false''
      \<and> v \<noteq> JNumber (Finite 0) \<and> v \<noteq> JNumber (Finite 1)
      \<and> (\<forall>a. v = JRef a \<longrightarrow> objects h a \<noteq> BufferObject [0] \<and> objects h a \<noteq> BufferObject [1])
      \<longrightarrow> BOOLEAN_sanitize h v = None)"
proof (intro conjI impI)
  show "BOOLEAN_sanitize h (JRef r) = Some True" if "objects h r = BufferObject [1]"
    using that by (simp add: BOOLEAN_sanitize_def BOOLEAN_parse_def strict_eq_def)
  show "BOOLEAN_sanitize h (JString ''false'') = Some False"
    by (simp add: BOOLEAN_sanitize_def BOOLEAN_parse_def)
  show "BOOLEAN_sanitize h (JNumber (Finite 2)) = None"
    by (simp add: BOOLEAN_sanitize_def BOOLEAN_parse_def strict_eq_def)
  show "BOOLEAN_sanitize h JNull = None"
    by (simp add: BOOLEAN_sanitize_def BOOLEAN_parse_def)
  show "BOOLEAN_sanitize h v = None"
    if "v \<noteq> JString ''true'' \<and> v \<noteq> JString ''false''
      \<and> v \<noteq> JNumber (Finite 0) \<and> v \<noteq> JNumber (Finite 1)
      \<and> (\<forall>a. v = JRef a \<longrightarrow> objects h a \<noteq> BufferObject [0] \<and> objects h a \<noteq> BufferObject [1])"
    using that
    by (cases v)
       (auto simp add: BOOLEAN_sanitize_def BOOLEAN_parse_def Let_def strict_eq_def byte_simps
          split: jsobj.splits list.splits)
qed

theorem BOOLEAN_sanitize_cases_witness:
  "(let h = \<lparr>objects = (\<lambda>a. BufferObject [1]), top = 1\<rparr>
    in objects h 0 = BufferObject [1]
       \<and> BOOLEAN_sanitize h (JRef 0) = Some True
       \<and> BOOLEAN_sanitize h (JString ''false'') = Some False
       \<and> BOOLEAN_sanitize h (JNumber (Finite 2)) = None
       \<and> BOOLEAN_sanitize h JNull = None
       \<and> BOOLEAN_sanitize h (JBool True) = None)"
  using BOOLEAN_sanitize_cases [of "\<lparr>objects = (\<lambda>a. BufferObject [1]), top = 1\<rparr>" 0 "JBool True"]
  by (simp add: Let_def)

subsection \<open>DATE.sanitize\<close>

text \<open>
  C10. Without the raw option (no options, or \<open>raw\<close> undefined or false), \<open>sanitize\<close>
  returns a date object as it is, turns a text or a number into a new date object (its
  time value is that of \<open>new Date(value)\<close>), and throws a TypeError, not a
  ValidationError, for every other value. With \<open>raw\<close> set it returns any value as it is.
\<close>

theorem DATE_sanitize_cases:
  "(opts = None \<or> opts = Some \<lparr>raw = None\<rparr> \<or> opts = Some \<lparr>raw = Some False\<rparr> \<longrightarrow>
      (objects h r = DateObject t \<longrightarrow> DATE_sanitize H h (JRef r) opts = Inr (JRef r, h))
      \<and> DATE_sanitize H h (JString str) opts
          = Inr (JRef (top h), snd (new_object h (DateObject (Date_parse H str))))
      \<and> DATE_sanitize H h (JNumber n) opts
          = Inr (JRef (top h), snd (new_object h (DateObject (Date_time_value H (JNumber n)))))
      \<and> (v \<notin> range JString \<and> v \<notin> range JNumber
          \<and> (\<forall>a t. v = JRef a \<longrightarrow> objects h a \<noteq> DateObject t)
          \<longrightarrow> DATE_sanitize H h v opts = Inl TypeError
              \<and> DATE_sanitize H h v opts \<noteq> Inl ValidationError))
   \<and> (opts = Some \<lparr>raw = Some True\<rparr> \<longrightarrow> DATE_sanitize H h v opts = Inr (v, h))"
  apply (intro conjI impI)
       apply (auto simp add: DATE_sanitize_def new_object_def split: jsobj.splits)
   apply (cases v; auto split: jsobj.splits)+
  done

theorem DATE_sanitize_cases_witness:
  "(let H = \<lparr>Number_toString_other = (\<lambda>q. []), StringToNumber = (\<lambda>s. NaN),
             Date_parse = (\<lambda>s. Some 0)\<rparr>;
        h = \<lparr>objects = (\<lambda>a. DateObject (Some 1000)), top = 1\<rparr>
    in objects h 0 = DateObject (Some 1000)
       \<and> DATE_sanitize H h (JRef 0) None = Inr (JRef 0, h)
       \<and> DATE_sanitize H h (JString ''1970-01-01'') None
           = Inr (JRef 1, \<lparr>objects = (objects h)(1 := DateObject (Some 0)), top = 2\<rparr>)
       \<and> DATE_sanitize H h (JNumber (Finite 5)) None
           = Inr (JRef 1, \<lparr>objects = (objects h)(1 := DateObject (Some 5)), top = 2\<rparr>)
       \<and> DATE_sanitize H h JNull None = Inl TypeError
       \<and> DATE_sanitize H h JNull (Some \<lparr>raw = Some True\<rparr>) = Inr (JNull, h))"
  using
    DATE_sanitize_cases
      [where opts = None and h = "\<lparr>objects = (\<lambda>a. DateObject (Some 1000)), top = 1\<rparr>"
         and r = 0 and t = "Some 1000" and str = "''1970-01-01''" and n = "Finite 5"
         and v = JNull
         and H = "\<lparr>Number_toString_other = (\<lambda>q. []), StringToNumber = (\<lambda>s. NaN),
                   Date_parse = (\<lambda>s. Some 0)\<rparr>"]
    DATE_sanitize_cases
      [where opts = "Some \<lparr>raw = Some True\<rparr>"
         and h = "\<lparr>objects = (\<lambda>a. DateObject (Some 1000)), top = 1\<rparr>"
         and r = 0 and t = "Some 1000" and str = "''1970-01-01''" and n = "Finite 5"
         and v = JNull
         and H = "\<lparr>Number_toString_other = (\<lambda>q. []), StringToNumber = (\<lambda>s. NaN),
                   Date_parse = (\<lambda>s. Some 0)\<rparr>"]
  by (auto simp add: Let_def new_object_def)

end
